theory Spec2Isabelle
  imports Complex_Main "HOL-Library.Multiset"
begin

section \<open>Python strings\<close>

text \<open>
  A Python \<open>str\<close> is modelled as a \<^typ>\<open>string\<close> whose characters are the code points
  below 256. The character classes below are the ones \<open>str.isspace\<close>,
  \<open>str.isalnum\<close>, \<open>str.lower\<close> and the \<open>re\<close> module (\<open>\s\<close>, \<open>\d\<close>, \<open>\w\<close>) use on
  that range.
\<close>

definition newline :: char where
  "newline = CHR 0x0A"

definition is_space :: "char \<Rightarrow> bool" where
  "is_space c = (c \<in> set [CHR 0x09, CHR 0x0A, CHR 0x0B, CHR 0x0C, CHR 0x0D,
     CHR 0x1C, CHR 0x1D, CHR 0x1E, CHR 0x1F, CHR 0x20, CHR 0x85, CHR 0xA0])"

definition is_decimal :: "char \<Rightarrow> bool" where
  "is_decimal c = (c \<in> set ''0123456789'')"

definition is_alnum :: "char \<Rightarrow> bool" where
  "is_alnum c = (let n = (of_char c :: nat) in
     (48 \<le> n \<and> n \<le> 57) \<or> (65 \<le> n \<and> n \<le> 90) \<or> (97 \<le> n \<and> n \<le> 122) \<or>
     n \<in> set [170, 178, 179, 181, 185, 186, 188, 189, 190] \<or>
     (192 \<le> n \<and> n \<le> 214) \<or> (216 \<le> n \<and> n \<le> 246) \<or> (248 \<le> n \<and> n \<le> 255))"

definition is_word :: "char \<Rightarrow> bool" where
  "is_word c = (is_alnum c \<or> c = CHR ''_'')"

definition lower_char :: "char \<Rightarrow> char" where
  "lower_char c = (let n = (of_char c :: nat) in
     if (65 \<le> n \<and> n \<le> 90) \<or> (192 \<le> n \<and> n \<le> 222 \<and> n \<noteq> 215)
     then char_of (n + 32) else c)"

definition py_lower :: "string \<Rightarrow> string" where
  "py_lower s = map lower_char s"

text \<open>\<open>s.strip()\<close>: whitespace removed at both ends.\<close>

definition py_strip :: "string \<Rightarrow> string" where
  "py_strip s = rev (dropWhile is_space (rev (dropWhile is_space s)))"

text \<open>\<open>s.split()\<close>: the maximal runs of non-whitespace characters, in order.\<close>

fun py_split_aux :: "string \<Rightarrow> string \<Rightarrow> string list" where
  "py_split_aux cur [] = (if cur = [] then [] else [rev cur])"
| "py_split_aux cur (c # cs) =
     (if is_space c then (if cur = [] then [] else [rev cur]) @ py_split_aux [] cs
      else py_split_aux (c # cur) cs)"

definition py_split :: "string \<Rightarrow> string list" where
  "py_split s = py_split_aux [] s"

text \<open>\<open>part in text\<close> on strings: \<open>part\<close> occurs in \<open>text\<close> as a contiguous block.\<close>

fun py_in :: "string \<Rightarrow> string \<Rightarrow> bool" where
  "py_in part [] = (part = [])"
| "py_in part (c # cs) = (take (length part) (c # cs) = part \<or> py_in part cs)"

text \<open>\<open>int(s)\<close> on a string of decimal digits.\<close>

definition digit_val :: "char \<Rightarrow> nat" where
  "digit_val c = of_char c - 48"

definition py_int :: "string \<Rightarrow> nat" where
  "py_int s = foldl (\<lambda>n c. 10 * n + digit_val c) 0 s"

section \<open>\<open>os.path\<close> (POSIX flavour)\<close>

text \<open>\<open>s.rfind(c)\<close> as an option: the index of the last occurrence.\<close>

fun rfind_aux :: "char \<Rightarrow> string \<Rightarrow> nat \<Rightarrow> nat option \<Rightarrow> nat option" where
  "rfind_aux c [] i found = found"
| "rfind_aux c (x # xs) i found = rfind_aux c xs (Suc i) (if x = c then Some i else found)"

definition rfind :: "char \<Rightarrow> string \<Rightarrow> nat option" where
  "rfind c s = rfind_aux c s 0 None"

definition basename :: "string \<Rightarrow> string" where
  "basename p = (case rfind CHR ''/'' p of None \<Rightarrow> p | Some i \<Rightarrow> drop (Suc i) p)"

text \<open>
  \<open>os.path.splitext\<close>: the extension starts at the last dot, provided that dot comes after
  the last separator and some character between the separator and the dot is not a dot.
\<close>

definition splitext :: "string \<Rightarrow> string \<times> string" where
  "splitext p =
     (let filenameIndex = (case rfind CHR ''/'' p of None \<Rightarrow> 0 | Some i \<Rightarrow> Suc i) in
      case rfind CHR ''.'' p of
        None \<Rightarrow> (p, [])
      | Some dotIndex \<Rightarrow>
          if filenameIndex \<le> dotIndex \<and>
             (\<exists>c \<in> set (take (dotIndex - filenameIndex) (drop filenameIndex p)). c \<noteq> CHR ''.'')
          then (take dotIndex p, drop dotIndex p)
          else (p, []))"

section \<open>The regular expressions of the parser\<close>

text \<open>
  The patterns of the source use only anchors, single character classes, starred character
  classes (greedy and lazy) and unnested groups. \<open>rmatch\<close> is the backtracking matcher of
  \<open>re\<close> on such patterns: a greedy star takes one more character before it tries the rest of
  the pattern, a lazy star tries the rest first. \<open>pos\<close> is the index in the subject string,
  \<open>buf\<close> the text of the group that is open (reversed), \<open>caps\<close> the closed groups (last first).
  The result is the groups and the unconsumed rest of the subject.
\<close>

datatype quant = Greedy | Lazy

datatype item = Bol | Eol | Cls "char \<Rightarrow> bool" | Star quant "char \<Rightarrow> bool" | Open | Close

definition push :: "char \<Rightarrow> string option \<Rightarrow> string option" where
  "push x buf = map_option (\<lambda>b. x # b) buf"

fun rmatch :: "item list \<Rightarrow> nat \<Rightarrow> string \<Rightarrow> string option \<Rightarrow> string list
    \<Rightarrow> (string list \<times> string) option" where
  "rmatch [] pos s buf caps = Some (rev caps, s)"
| "rmatch (Bol # p) pos s buf caps = (if pos = 0 then rmatch p pos s buf caps else None)"
| "rmatch (Eol # p) pos s buf caps =
     (if s = [] \<or> s = [newline] then rmatch p pos s buf caps else None)"
| "rmatch (Open # p) pos s buf caps = rmatch p pos s (Some []) caps"
| "rmatch (Close # p) pos s buf caps =
     rmatch p pos s None ((case buf of None \<Rightarrow> [] | Some b \<Rightarrow> rev b) # caps)"
| "rmatch (Cls c # p) pos s buf caps =
     (case s of [] \<Rightarrow> None
      | x # xs \<Rightarrow> if c x then rmatch p (Suc pos) xs (push x buf) caps else None)"
| "rmatch (Star Greedy c # p) pos s buf caps =
     (case (case s of [] \<Rightarrow> None
            | x # xs \<Rightarrow> if c x then rmatch (Star Greedy c # p) (Suc pos) xs (push x buf) caps
                       else None) of
        Some r \<Rightarrow> Some r
      | None \<Rightarrow> rmatch p pos s buf caps)"
| "rmatch (Star Lazy c # p) pos s buf caps =
     (case rmatch p pos s buf caps of
        Some r \<Rightarrow> Some r
      | None \<Rightarrow> (case s of [] \<Rightarrow> None
                 | x # xs \<Rightarrow> if c x then rmatch (Star Lazy c # p) (Suc pos) xs (push x buf) caps
                            else None))"

text \<open>\<open>re.match(pattern, s)\<close>: the groups of a match at the start of \<open>s\<close>.\<close>

definition re_match :: "item list \<Rightarrow> string \<Rightarrow> string list option" where
  "re_match p s = map_option fst (rmatch p 0 s None [])"

text \<open>
  \<open>re.sub(pattern, '', s)\<close>: every leftmost non-overlapping match is deleted. An empty match
  deletes nothing, and the scan moves on by one character.
\<close>

function re_sub_empty :: "item list \<Rightarrow> nat \<Rightarrow> string \<Rightarrow> string" where
  "re_sub_empty p pos s =
     (case rmatch p pos s None [] of
        Some (g, rest) \<Rightarrow>
          if length rest < length s then re_sub_empty p (pos + (length s - length rest)) rest
          else (case s of [] \<Rightarrow> [] | x # xs \<Rightarrow> x # re_sub_empty p (Suc pos) xs)
      | None \<Rightarrow> (case s of [] \<Rightarrow> [] | x # xs \<Rightarrow> x # re_sub_empty p (Suc pos) xs))"
  by pat_completeness auto
termination
  by (relation "measure (\<lambda>(p, pos, s). length s)") auto

definition dot :: "char \<Rightarrow> bool" where
  "dot c = (c \<noteq> newline)"

definition lit :: "char \<Rightarrow> char \<Rightarrow> bool" where
  "lit a c = (c = a)"

definition sep_class :: "char \<Rightarrow> bool" where
  "sep_class c = (is_space c \<or> c = CHR ''_'' \<or> c = CHR ''-'')"

text \<open>\<open>^(\d+)[\s_-]*\<close>\<close>

definition track_pattern :: "item list" where
  "track_pattern = [Bol, Open, Cls is_decimal, Star Greedy is_decimal, Close, Star Greedy sep_class]"

text \<open>\<open>^(.*?)\s*-\s*(.*?)$\<close>\<close>

definition pattern_dash :: "item list" where
  "pattern_dash = [Bol, Open, Star Lazy dot, Close, Star Greedy is_space, Cls (lit CHR ''-''),
     Star Greedy is_space, Open, Star Lazy dot, Close, Eol]"

text \<open>\<open>^(.*?)_-_(.*?)$\<close>\<close>

definition pattern_underscore_dash :: "item list" where
  "pattern_underscore_dash = [Bol, Open, Star Lazy dot, Close, Cls (lit CHR ''_''),
     Cls (lit CHR ''-''), Cls (lit CHR ''_''), Open, Star Lazy dot, Close, Eol]"

text \<open>\<open>^(.*?)_(.*?)$\<close>\<close>

definition pattern_underscore :: "item list" where
  "pattern_underscore = [Bol, Open, Star Lazy dot, Close, Cls (lit CHR ''_''),
     Open, Star Lazy dot, Close, Eol]"

definition artist_first_patterns :: "item list list" where
  "artist_first_patterns = [pattern_dash, pattern_underscore_dash, pattern_underscore]"

definition song_first_patterns :: "item list list" where
  "song_first_patterns = [pattern_dash, pattern_underscore_dash, pattern_underscore]"

section \<open>\<open>MusicFile\<close>\<close>

text \<open>
  The \<open>metadata\<close> dictionary: \<open>length_md\<close> is the pair (minutes, seconds) that the source
  formats as \<open>m:ss\<close>, \<open>quality\<close> the number of kbps; \<open>None\<close> stands for \<open>"Unknown"\<close>.
\<close>

record metadata =
  length_md :: "(int \<times> int) option"
  quality :: "int option"

record music_file =
  full_path :: string
  filename :: string
  extension :: string
  size_f :: nat
  artist :: string
  song :: string
  track_num :: "nat option"
  metadata_f :: metadata

text \<open>\<open>match.group(n)\<close>; every pattern of the parser has the groups that are read.\<close>

definition group :: "string list \<Rightarrow> nat \<Rightarrow> string" where
  "group g n = (if 0 < n \<and> n \<le> length g then g ! (n - 1) else [])"

text \<open>
  The two loops of \<open>_parse_filename\<close> over the pattern lists. The flag of the result says
  that the loop left the method with \<open>return\<close>.
\<close>

fun artist_first_loop :: "item list list \<Rightarrow> string \<Rightarrow> music_file \<Rightarrow> music_file \<times> bool" where
  "artist_first_loop [] name self = (self, False)"
| "artist_first_loop (pattern # ps) name self =
     (case re_match pattern name of
        Some m \<Rightarrow>
          (let self = self\<lparr>artist := py_strip (group m 1)\<rparr>;
               self = self\<lparr>song := py_strip (group m 2)\<rparr>
           in if artist self \<noteq> [] \<and> song self \<noteq> [] then (self, True)
              else artist_first_loop ps name self)
      | None \<Rightarrow> artist_first_loop ps name self)"

fun song_first_loop :: "item list list \<Rightarrow> string \<Rightarrow> music_file \<Rightarrow> music_file \<times> bool" where
  "song_first_loop [] name self = (self, False)"
| "song_first_loop (pattern # ps) name self =
     (case re_match pattern name of
        Some m \<Rightarrow>
          (let self = self\<lparr>song := py_strip (group m 1)\<rparr>;
               self = self\<lparr>artist := py_strip (group m 2)\<rparr>
           in if artist self \<noteq> [] \<and> song self \<noteq> [] then (self, True)
              else song_first_loop ps name self)
      | None \<Rightarrow> song_first_loop ps name self)"

text \<open>The leading track number: \<open>track_num\<close> is set and the match is cut off the name.\<close>

definition extract_track :: "string \<Rightarrow> music_file \<Rightarrow> music_file \<times> string" where
  "extract_track name_without_ext self =
     (case re_match track_pattern name_without_ext of
        Some track_match \<Rightarrow>
          (self\<lparr>track_num := Some (py_int (group track_match 1))\<rparr>,
           re_sub_empty track_pattern 0 name_without_ext)
      | None \<Rightarrow> (self, name_without_ext))"

definition fallback :: "string \<Rightarrow> music_file \<Rightarrow> music_file" where
  "fallback name_without_ext self =
     (if artist self = [] \<and> song self = [] then self\<lparr>song := name_without_ext\<rparr> else self)"

definition parse_filename :: "music_file \<Rightarrow> music_file" where
  "parse_filename self0 =
     (let name_without_ext = fst (splitext (filename self0));
          (self1, name) = extract_track name_without_ext self0;
          (self2, returned) = artist_first_loop artist_first_patterns name self1
      in if returned then self2
         else (let (self3, returned) = song_first_loop song_first_patterns name self2
               in if returned then self3 else fallback name self3))"

text \<open>
  What \<open>mutagen\<close> answers for a file. \<open>None\<close> in \<open>info_length\<close> and \<open>info_bitrate\<close>: the
  attribute is missing; \<open>None\<close> in \<open>artist_tag\<close> and \<open>title_tag\<close>: the key is not in the
  file; otherwise the list stored under the key.
\<close>

record audio =
  info_length :: "real option"
  info_bitrate :: "int option"
  has_tags :: bool
  artist_tag :: "string list option"
  title_tag :: "string list option"

text \<open>
  The ways through the \<open>try\<close> block: the module is not installed, \<open>mutagen.File\<close>
  raises, it returns \<open>None\<close> or another false value, or it returns an object.
\<close>

datatype mutagen = Not_Installed | File_Raises | Falsy | Audio audio

definition tagged_extensions :: "string list" where
  "tagged_extensions = [''mp3'', ''flac'', ''ogg'', ''aac'', ''m4a'']"

text \<open>
  \<open>_extract_metadata\<close>. Reading index 0 of an empty tag list raises, and the handler of the
  \<open>try\<close> block leaves the object as it is at that point.
\<close>

definition read_tags :: "audio \<Rightarrow> music_file \<Rightarrow> music_file" where
  "read_tags a self =
     (if \<not> has_tags a then self
      else
        (let step1 =
           (if artist self = []
            then (case artist_tag a of
                    None \<Rightarrow> Some self
                  | Some [] \<Rightarrow> None
                  | Some (v # _) \<Rightarrow> Some (self\<lparr>artist := v\<rparr>))
            else Some self)
         in case step1 of
              None \<Rightarrow> self
            | Some self1 \<Rightarrow>
                (if song self1 = []
                 then (case title_tag a of
                         None \<Rightarrow> self1
                       | Some [] \<Rightarrow> self1
                       | Some (v # _) \<Rightarrow> self1\<lparr>song := v\<rparr>)
                 else self1)))"

definition read_info :: "audio \<Rightarrow> metadata" where
  "read_info a =
     \<lparr>length_md = map_option (\<lambda>length_secs.
          (\<lfloor>length_secs / 60\<rfloor>, \<lfloor>length_secs - 60 * of_int \<lfloor>length_secs / 60\<rfloor>\<rfloor>)) (info_length a),
      quality = map_option (\<lambda>b. b div 1000) (info_bitrate a)\<rparr>"

definition extract_metadata :: "mutagen \<Rightarrow> music_file \<Rightarrow> music_file" where
  "extract_metadata env self =
     (let unknown = \<lparr>length_md = None, quality = None\<rparr> in
      if extension self \<in> set tagged_extensions then
        (case env of
           Audio a \<Rightarrow> (read_tags a self)\<lparr>metadata_f := read_info a\<rparr>
         | _ \<Rightarrow> self\<lparr>metadata_f := unknown\<rparr>)
      else self\<lparr>metadata_f := unknown\<rparr>)"

text \<open>
  The constructor. \<open>getsize\<close> is the answer of \<open>os.path.getsize\<close>, \<open>None\<close> when it raises;
  the constructor then raises too and no object is built.
\<close>

definition init_fields :: "string \<Rightarrow> nat \<Rightarrow> music_file" where
  "init_fields path n =
     \<lparr>full_path = path, filename = basename path,
      extension = drop 1 (py_lower (snd (splitext path))), size_f = n,
      artist = [], song = [], track_num = None,
      metadata_f = \<lparr>length_md = None, quality = None\<rparr>\<rparr>"

definition MusicFile :: "string \<Rightarrow> nat option \<Rightarrow> mutagen \<Rightarrow> music_file option" where
  "MusicFile path size_answer env =
     (case size_answer of
        None \<Rightarrow> None
      | Some n \<Rightarrow> Some (extract_metadata env (parse_filename (init_fields path n))))"

text \<open>
  The parser as a function of the file name: the three fields that \<open>_parse_filename\<close>
  leaves in a new object.
\<close>

definition parser :: "string \<Rightarrow> string \<times> string \<times> nat option" where
  "parser name =
     (let self = parse_filename (init_fields name 0) in (artist self, song self, track_num self))"

text \<open>
  The parser as the specification describes it: the artist-first patterns, then the
  fallback to the whole name, with no song-first pass.
\<close>

definition parse_filename_artist_first :: "music_file \<Rightarrow> music_file" where
  "parse_filename_artist_first self0 =
     (let name_without_ext = fst (splitext (filename self0));
          (self1, name) = extract_track name_without_ext self0;
          (self2, returned) = artist_first_loop artist_first_patterns name self1
      in if returned then self2 else fallback name self2)"

definition parser_artist_first :: "string \<Rightarrow> string \<times> string \<times> nat option" where
  "parser_artist_first name =
     (let self = parse_filename_artist_first (init_fields name 0)
      in (artist self, song self, track_num self))"

text \<open>
  The artist-first pass ends without \<open>return\<close> and with exactly one of the two fields
  filled.
\<close>

definition one_sided_split :: "music_file \<Rightarrow> bool" where
  "one_sided_split self0 =
     (let name_without_ext = fst (splitext (filename self0));
          (self1, name) = extract_track name_without_ext self0;
          (self2, returned) = artist_first_loop artist_first_patterns name self1
      in \<not> returned \<and> ((artist self2 = []) \<noteq> (song self2 = [])))"

text \<open>
  \<open>re.sub(r'[^\w\s]', ' ', s)\<close>: each character that is neither a word character nor
  whitespace becomes a blank.
\<close>

definition sub_non_word :: "string \<Rightarrow> string" where
  "sub_non_word s = map (\<lambda>c. if \<not> is_word c \<and> \<not> is_space c then CHR '' '' else c) s"

definition haystack :: "music_file \<Rightarrow> string" where
  "haystack self = py_lower (filename self) @ '' '' @ py_lower (artist self) @ '' '' @
     py_lower (song self)"

text \<open>
  \<open>match_query\<close>. Scores and thresholds are Python floats, read as the real numbers they
  denote. \<open>ratio a b\<close> stands for \<open>difflib.SequenceMatcher(None, a, b).ratio()\<close> of the
  standard library.
\<close>

definition match_query :: "(string \<Rightarrow> string \<Rightarrow> real) \<Rightarrow> music_file \<Rightarrow> string \<Rightarrow> real \<Rightarrow> real" where
  "match_query ratio self query0 threshold =
     (let query = py_lower query0;
          query_parts = set (py_split (sub_non_word query));
          text = haystack self
      in if query_parts = {} \<or> \<not> (\<forall>part \<in> query_parts. py_in part text) then 0
         else if threshold \<le> 0.5 then 1
         else
           (let full_match_score = ratio query text;
                artist_song = py_lower (artist self) @ '' - '' @ py_lower (song self);
                artist_song_score = ratio query artist_song;
                song_artist = py_lower (song self) @ '' - '' @ py_lower (artist self);
                song_artist_score = ratio query song_artist
            in max full_match_score (max artist_song_score song_artist_score)))"

text \<open>
  The token set of a query as the specification words it: after lower-casing, every
  character that is neither alphanumeric nor whitespace becomes whitespace.
\<close>

definition spec_query_tokens :: "string \<Rightarrow> string set" where
  "spec_query_tokens query0 =
     set (py_split (map (\<lambda>c. if \<not> is_alnum c \<and> \<not> is_space c then CHR '' '' else c)
       (py_lower query0)))"

text \<open>The token set that \<open>match_query\<close> computes.\<close>

definition query_tokens :: "string \<Rightarrow> string set" where
  "query_tokens query0 = set (py_split (sub_non_word (py_lower query0)))"

text \<open>A ratio function for closed examples: every pair of strings is rated 0.\<close>

definition no_ratio :: "string \<Rightarrow> string \<Rightarrow> real" where
  "no_ratio a b = 0"

section \<open>\<open>MusicDatabase\<close>\<close>

record music_database =
  music_files :: "music_file list"
  directories :: "string list"
  file_extensions :: "string set"
  is_scanning :: bool

definition set_extensions :: "string set \<Rightarrow> music_database \<Rightarrow> music_database" where
  "set_extensions extensions self = self\<lparr>file_extensions := extensions\<rparr>"

text \<open>The test of \<open>_scan_worker\<close> on a file name of the walk.\<close>

definition qualifies :: "music_database \<Rightarrow> string \<Rightarrow> bool" where
  "qualifies self file =
     (let ext = drop 1 (py_lower (snd (splitext file))) in ext \<in> file_extensions self)"

text \<open>
  \<open>sorted(results, key=lambda x: x[1], reverse=True)\<close>: Python's sort is stable, also with
  \<open>reverse=True\<close>.
\<close>

definition sorted_by_score :: "('a \<times> real) list \<Rightarrow> ('a \<times> real) list" where
  "sorted_by_score results = sort_key (\<lambda>x. - snd x) results"

text \<open>
  The call \<open>music_file.match_query(query, threshold)\<close> as the loops make it: the score, and
  the object as the call leaves it. The method binds local names only and assigns to no
  attribute of the object.
\<close>

definition match_query_call :: "(string \<Rightarrow> string \<Rightarrow> real) \<Rightarrow> music_file \<Rightarrow> string \<Rightarrow> real
    \<Rightarrow> real \<times> music_file" where
  "match_query_call ratio self query threshold = (match_query ratio self query threshold, self)"

text \<open>
  The loop of \<open>search\<close> over the record list. \<open>objects\<close> collects the records as their calls
  leave them: after the loop they are the record list of the database.
\<close>

fun search_loop :: "(string \<Rightarrow> string \<Rightarrow> real) \<Rightarrow> string \<Rightarrow> real \<Rightarrow> music_file list
    \<Rightarrow> (music_file \<times> real) list \<Rightarrow> music_file list
    \<Rightarrow> (music_file \<times> real) list \<times> music_file list" where
  "search_loop ratio query threshold [] results objects = (results, objects)"
| "search_loop ratio query threshold (music_file # rest) results objects =
     (let (score, music_file) = match_query_call ratio music_file query threshold in
      if score \<ge> threshold
      then search_loop ratio query threshold rest (results @ [(music_file, score)])
             (objects @ [music_file])
      else search_loop ratio query threshold rest results (objects @ [music_file]))"

text \<open>\<open>search\<close> returns its result and the database as the call leaves it.\<close>

definition search :: "(string \<Rightarrow> string \<Rightarrow> real) \<Rightarrow> music_database \<Rightarrow> string \<Rightarrow> real
    \<Rightarrow> (music_file \<times> real) list \<times> music_database" where
  "search ratio self query threshold =
     (if py_strip query = [] then ([], self)
      else (let (results, objects) = search_loop ratio query threshold (music_files self) [] []
            in (sorted_by_score results, self\<lparr>music_files := objects\<rparr>)))"

fun entry_loop :: "(string \<Rightarrow> string \<Rightarrow> real) \<Rightarrow> string \<Rightarrow> real \<Rightarrow> music_file list
    \<Rightarrow> (music_file \<times> real) list \<Rightarrow> music_file list
    \<Rightarrow> (music_file \<times> real) list \<times> music_file list" where
  "entry_loop ratio entry threshold [] entry_matches objects = (entry_matches, objects)"
| "entry_loop ratio entry threshold (music_file # rest) entry_matches objects =
     (let (score, music_file) = match_query_call ratio music_file entry threshold in
      if score \<ge> threshold
      then entry_loop ratio entry threshold rest (entry_matches @ [(music_file, score)])
             (objects @ [music_file])
      else entry_loop ratio entry threshold rest entry_matches (objects @ [music_file]))"

fun playlist_loop :: "(string \<Rightarrow> string \<Rightarrow> real) \<Rightarrow> real \<Rightarrow> string list
    \<Rightarrow> (string \<times> (music_file \<times> real) list) list \<Rightarrow> music_database
    \<Rightarrow> (string \<times> (music_file \<times> real) list) list \<times> music_database" where
  "playlist_loop ratio threshold [] results self = (results, self)"
| "playlist_loop ratio threshold (entry # rest) results self =
     (let (entry_matches, objects) = entry_loop ratio entry threshold (music_files self) [] [];
          self = self\<lparr>music_files := objects\<rparr>;
          sorted_matches = sorted_by_score entry_matches
      in playlist_loop ratio threshold rest (results @ [(entry, sorted_matches)]) self)"

text \<open>\<open>match_playlist\<close> returns its result and the database as the call leaves it.\<close>

definition match_playlist :: "(string \<Rightarrow> string \<Rightarrow> real) \<Rightarrow> music_database \<Rightarrow> string list \<Rightarrow> real
    \<Rightarrow> (string \<times> (music_file \<times> real) list) list \<times> music_database" where
  "match_playlist ratio self playlist_entries threshold =
     playlist_loop ratio threshold playlist_entries [] self"

subsection \<open>Scanning\<close>

text \<open>
  One file of the directory walk with what the file system answers for it: the directory,
  the file name, the size (\<open>None\<close> when \<open>os.path.getsize\<close> raises) and the answer of
  \<open>mutagen\<close>.
\<close>

record walk_entry =
  root :: string
  file_w :: string
  getsize :: "nat option"
  probe :: mutagen

text \<open>\<open>os.path.join\<close> of two components.\<close>

definition path_join :: "string \<Rightarrow> string \<Rightarrow> string" where
  "path_join a b =
     (if take 1 b = ''/'' then b
      else if a = [] \<or> drop (length a - 1) a = ''/'' then a @ b
      else a @ ''/'' @ b)"

text \<open>
  \<open>scan_directories\<close>: refused while the flag is set; otherwise the flag is set, the record
  list is emptied and a worker thread is started. The progress callback and the counters
  of the worker never touch the record list and are left out.
\<close>

definition scan_directories :: "music_database \<Rightarrow> bool \<times> music_database" where
  "scan_directories self =
     (if is_scanning self then (False, self)
      else (True, self\<lparr>is_scanning := True, music_files := []\<rparr>))"

text \<open>
  \<open>cancel_scan\<close> clears the flag and waits for the worker for at most one second; it
  returns whether or not the worker has ended.
\<close>

definition cancel_scan :: "music_database \<Rightarrow> music_database" where
  "cancel_scan self = self\<lparr>is_scanning := False\<rparr>"

text \<open>
  A worker thread in its second walk: the files that the walk has not reached yet, and
  where the thread stands. Other threads run between the checks on a file (the flag and
  the extension) and the append of its record, so a file takes two turns: \<open>Picking\<close> is
  the head of the loop, \<open>Building e\<close> is the construction of the record of \<open>e\<close>, which has
  passed the checks. \<open>Exited\<close>: the thread has left through \<open>finally\<close>.
\<close>

datatype phase = Picking | Building walk_entry | Exited

record worker =
  pending :: "walk_entry list"
  phase :: phase

text \<open>
  One turn of a worker on the database that all threads share. At the head of the loop
  the worker leaves when no file is left or when the flag is cleared, and \<open>finally\<close>
  clears the flag; a file whose extension is not in the filter is passed over. A file
  whose construction raises is logged and skipped.
\<close>

definition worker_turn :: "music_database \<Rightarrow> worker \<Rightarrow> music_database \<times> worker" where
  "worker_turn self w =
     (case phase w of
        Exited \<Rightarrow> (self, w)
      | Building e \<Rightarrow>
          (case MusicFile (path_join (root e) (file_w e)) (getsize e) (probe e) of
             Some music_file \<Rightarrow>
               (self\<lparr>music_files := music_files self @ [music_file]\<rparr>, w\<lparr>phase := Picking\<rparr>)
           | None \<Rightarrow> (self, w\<lparr>phase := Picking\<rparr>))
      | Picking \<Rightarrow>
          (case pending w of
             [] \<Rightarrow> (self\<lparr>is_scanning := False\<rparr>, w\<lparr>phase := Exited\<rparr>)
           | e # es \<Rightarrow>
               if \<not> is_scanning self then (self\<lparr>is_scanning := False\<rparr>, w\<lparr>phase := Exited\<rparr>)
               else if qualifies self (file_w e) then (self, \<lparr>pending = es, phase = Building e\<rparr>)
               else (self, w\<lparr>pending := es\<rparr>)))"

text \<open>
  The database with the worker threads that were started on it. A reader (\<open>search\<close>,
  \<open>match_playlist\<close>) that runs in a state sees \<open>music_files (db st)\<close>.
\<close>

record scan =
  db :: music_database
  workers :: "worker list"

text \<open>
  What can happen next: the caller starts a scan (\<open>walk\<close> is what the walk of the new
  worker will yield), the worker with the given number takes a turn, the caller cancels,
  or the caller sets the extension filter. A start is possible again as soon as the flag
  is clear, also while an earlier worker still runs.
\<close>

datatype action = Start "walk_entry list" | Turn nat | Cancel | Set_Extensions "string set"

definition perform :: "action \<Rightarrow> scan \<Rightarrow> scan" where
  "perform a st =
     (case a of
        Start walk \<Rightarrow>
          (let (accepted, self) = scan_directories (db st) in
           if accepted
           then \<lparr>db = self, workers = workers st @ [\<lparr>pending = walk, phase = Picking\<rparr>]\<rparr>
           else st)
      | Turn i \<Rightarrow>
          if i < length (workers st)
          then (let (self, w) = worker_turn (db st) (workers st ! i)
                in \<lparr>db = self, workers = (workers st)[i := w]\<rparr>)
          else st
      | Cancel \<Rightarrow> st\<lparr>db := cancel_scan (db st)\<rparr>
      | Set_Extensions extensions \<Rightarrow> st\<lparr>db := set_extensions extensions (db st)\<rparr>)"

text \<open>The records that worker \<open>i\<close> appends in its next turn: one or none.\<close>

definition built_in_turn :: "scan \<Rightarrow> nat \<Rightarrow> music_file list" where
  "built_in_turn st i =
     (if i < length (workers st)
      then (case phase (workers st ! i) of
              Building e \<Rightarrow>
                (case MusicFile (path_join (root e) (file_w e)) (getsize e) (probe e) of
                   Some music_file \<Rightarrow> [music_file]
                 | None \<Rightarrow> [])
            | _ \<Rightarrow> [])
      else [])"

text \<open>The record list of a scan of \<open>walk\<close> that runs to its end under the filter of \<open>self\<close>.\<close>

fun scan_result :: "music_database \<Rightarrow> walk_entry list \<Rightarrow> music_file list" where
  "scan_result self [] = []"
| "scan_result self (e # es) =
     (if qualifies self (file_w e)
      then (case MusicFile (path_join (root e) (file_w e)) (getsize e) (probe e) of
              Some music_file \<Rightarrow> music_file # scan_result self es
            | None \<Rightarrow> scan_result self es)
      else scan_result self es)"

text \<open>The number of turns that a worker takes to pass the files of \<open>walk\<close>.\<close>

fun turns_for :: "music_database \<Rightarrow> walk_entry list \<Rightarrow> nat" where
  "turns_for self [] = 0"
| "turns_for self (e # es) =
     (if qualifies self (file_w e) then Suc (Suc (turns_for self es))
      else Suc (turns_for self es))"

text \<open>\<open>MusicDatabase.__init__\<close>\<close>

definition new_database :: music_database where
  "new_database =
     \<lparr>music_files = [], directories = [],
      file_extensions = {''mp3'', ''m4a'', ''flac'', ''ogg'', ''aac'', ''wav''},
      is_scanning = False\<rparr>"

text \<open>Some pattern of the list matches the name.\<close>

definition any_match :: "item list list \<Rightarrow> string \<Rightarrow> bool" where
  "any_match ps name = (\<exists>p \<in> set ps. re_match p name \<noteq> None)"

subsection \<open>Example data\<close>

text \<open>A walk over two files, with \<open>mutagen\<close> not installed.\<close>

definition example_walk :: "walk_entry list" where
  "example_walk =
     [\<lparr>root = ''music'', file_w = ''a.mp3'', getsize = Some 3, probe = Not_Installed\<rparr>,
      \<lparr>root = ''music'', file_w = ''b.mp3'', getsize = Some 2, probe = Not_Installed\<rparr>]"

text \<open>A database that holds the record of an earlier scan.\<close>

definition old_database :: music_database where
  "old_database = new_database\<lparr>music_files := [parse_filename (init_fields ''old.mp3'' 0)]\<rparr>"

text \<open>A database that holds the records of the two files of \<open>example_walk\<close>.\<close>

definition example_database :: music_database where
  "example_database = new_database\<lparr>music_files := scan_result new_database example_walk\<rparr>"

text \<open>A file whose tags name the artist \<open>X\<close> and the title \<open>Y\<close>.\<close>

definition tagged_audio :: mutagen where
  "tagged_audio = Audio \<lparr>info_length = None, info_bitrate = None, has_tags = True,
     artist_tag = Some [''X''], title_tag = Some [''Y'']\<rparr>"

section \<open>The filename parser\<close>

text \<open>
  C1. The parser on the three example names. The first and the third give the results of
  the specification. On \<open>Artist_-_Song.flac\<close> the first pattern (a hyphen with optional
  whitespace around it) already matches with two non-empty parts, so the underscores stay
  in both parts: the artist is \<open>Artist_\<close> and the song is \<open>_Song\<close>, not \<open>Artist\<close> and
  \<open>Song\<close>.
\<close>

theorem parser_examples:
  "parser ''01 - Artist - Song.mp3'' = (''Artist'', ''Song'', Some 1) \<and>
   parser ''Artist_-_Song.flac'' = (''Artist_'', ''_Song'', None) \<and>
   parser ''JustATitle.wav'' = ([], ''JustATitle'', None)"
  by code_simp

text \<open>
  C2. The name \<open>01.mp3\<close> has the non-empty stem \<open>01\<close>, which the track number takes
  whole. The fallback then stores the empty rest as the song: with no tags to read, the
  object is built with track number 1 and with artist and song both empty.
\<close>

theorem track_only_name_both_empty:
  "fst (splitext ''01.mp3'') = ''01'' \<and>
   map_option (\<lambda>r. (artist r, song r, track_num r)) (MusicFile ''01.mp3'' (Some 0) Not_Installed)
     = Some ([], [], Some 1)"
  by code_simp

lemma artist_loop_no_match:
  "\<not> any_match ps name \<Longrightarrow> artist_first_loop ps name s = (s, False)"
  by (induction ps arbitrary: s) (auto simp: any_match_def)

lemma song_loop_no_match:
  "\<not> any_match ps name \<Longrightarrow> song_first_loop ps name s = (s, False)"
  by (induction ps arbitrary: s) (auto simp: any_match_def)

text \<open>
  When the artist-first loop runs through without \<open>return\<close> although some pattern matches,
  the song-first loop runs through as well and leaves the two groups of the last matching
  pattern the other way round.
\<close>

lemma song_loop_swaps:
  "artist_first_loop ps name s = (s2, False) \<Longrightarrow> any_match ps name \<Longrightarrow>
   song_first_loop ps name t = (t\<lparr>song := artist s2, artist := song s2\<rparr>, False) \<and>
   \<not> (artist s2 \<noteq> [] \<and> song s2 \<noteq> [])"
proof (induction ps arbitrary: s t)
  case Nil
  then show ?case by (simp add: any_match_def)
next
  case (Cons p ps)
  show ?case
  proof (cases "re_match p name")
    case None
    with Cons.prems have "artist_first_loop ps name s = (s2, False)" "any_match ps name"
      by (auto simp: any_match_def)
    from Cons.IH[OF this] None show ?thesis by simp
  next
    case (Some m)
    let ?s = "s\<lparr>artist := py_strip (group m 1), song := py_strip (group m 2)\<rparr>"
    let ?t = "t\<lparr>song := py_strip (group m 1), artist := py_strip (group m 2)\<rparr>"
    from Cons.prems(1) Some
    have nb: "\<not> (py_strip (group m 1) \<noteq> [] \<and> py_strip (group m 2) \<noteq> [])"
      by (auto simp: Let_def split: if_splits)
    with Cons.prems(1) Some have rest: "artist_first_loop ps name ?s = (s2, False)"
      by (auto simp: Let_def split: if_splits)
    from nb Some have t: "song_first_loop (p # ps) name t = song_first_loop ps name ?t"
      by (auto simp: Let_def)
    show ?thesis
    proof (cases "any_match ps name")
      case True
      from Cons.IH[OF rest True, of ?t] t show ?thesis by simp
    next
      case False
      from artist_loop_no_match[OF False, of ?s] rest have "s2 = ?s" by simp
      with song_loop_no_match[OF False, of ?t] t nb show ?thesis by auto
    qed
  qed
qed

lemma extract_track_fields:
  "extract_track n s = (s1, name) \<Longrightarrow> artist s1 = artist s \<and> song s1 = song s"
  by (auto simp: extract_track_def split: option.splits)

text \<open>
  C3, as the claim states it, fails: on \<open>-Song.mp3\<close> the artist-first patterns alone give
  the song \<open>Song\<close> and no artist, the full parser gives the artist \<open>Song\<close> and no song.
\<close>

theorem song_first_pass_counterexample:
  "parser ''-Song.mp3'' = (''Song'', [], None) \<and>
   parser_artist_first ''-Song.mp3'' = ([], ''Song'', None)"
  by code_simp

text \<open>
  C3, amended. On a new object (artist and song empty) the full parser gives what the
  artist-first patterns with the fallback give, except when the artist-first pass ends
  without two non-empty parts and with exactly one of the two fields filled: then the
  song-first pass exchanges artist and song. The other fields, the track number among
  them, are the same in every case.
\<close>

theorem song_first_pass_effect:
  assumes "artist self = []" "song self = []"
  shows "parse_filename self =
     (let r = parse_filename_artist_first self in
      if one_sided_split self then r\<lparr>artist := song r, song := artist r\<rparr> else r)"
proof -
  obtain s1 name where e: "extract_track (fst (splitext (filename self))) self = (s1, name)"
    by (cases "extract_track (fst (splitext (filename self))) self")
  obtain s2 ret where a: "artist_first_loop artist_first_patterns name s1 = (s2, ret)"
    by (cases "artist_first_loop artist_first_patterns name s1")
  from extract_track_fields[OF e] assms have s1: "artist s1 = []" "song s1 = []" by simp_all
  have sf: "song_first_patterns = artist_first_patterns"
    by (simp add: song_first_patterns_def artist_first_patterns_def)
  show ?thesis
  proof (cases ret)
    case True
    with e a show ?thesis
      by (simp add: parse_filename_def parse_filename_artist_first_def one_sided_split_def)
  next
    case False
    show ?thesis
    proof (cases "any_match artist_first_patterns name")
      case nm: False
      from artist_loop_no_match[OF nm, of s1] a have "s2 = s1" by simp
      with song_loop_no_match[OF nm, of s1] e a False s1 sf show ?thesis
        by (simp add: parse_filename_def parse_filename_artist_first_def one_sided_split_def)
    next
      case m: True
      from a False have a': "artist_first_loop artist_first_patterns name s1 = (s2, False)"
        by simp
      from song_loop_swaps[OF a' m, of s2]
      have sw: "song_first_loop artist_first_patterns name s2 =
          (s2\<lparr>song := artist s2, artist := song s2\<rparr>, False)"
        and nb: "\<not> (artist s2 \<noteq> [] \<and> song s2 \<noteq> [])" by simp_all
      show ?thesis
      proof (cases "artist s2 = [] \<and> song s2 = []")
        case True
        then have "s2\<lparr>song := artist s2, artist := song s2\<rparr> = s2" by simp
        with sw have "song_first_loop artist_first_patterns name s2 = (s2, False)" by simp
        with e a False True sf show ?thesis
          by (simp add: parse_filename_def parse_filename_artist_first_def one_sided_split_def)
      next
        case one: False
        with nb have os: "(artist s2 = []) \<noteq> (song s2 = [])" by auto
        with sw e a False sf one show ?thesis
          by (auto simp add: parse_filename_def parse_filename_artist_first_def
              one_sided_split_def fallback_def)
      qed
    qed
  qed
qed

theorem song_first_pass_effect_witness:
  "artist (init_fields ''A - .mp3'' 0) = [] \<and> song (init_fields ''A - .mp3'' 0) = [] \<and>
   parse_filename (init_fields ''A - .mp3'' 0) =
     (let r = parse_filename_artist_first (init_fields ''A - .mp3'' 0) in
      if one_sided_split (init_fields ''A - .mp3'' 0)
      then r\<lparr>artist := song r, song := artist r\<rparr> else r)"
proof -
  have h1: "artist (init_fields ''A - .mp3'' 0) = []" by (simp add: init_fields_def)
  have h2: "song (init_fields ''A - .mp3'' 0) = []" by (simp add: init_fields_def)
  from song_first_pass_effect[OF h1 h2] h1 h2 show ?thesis by blast
qed

section \<open>Metadata\<close>

lemma read_tags_frame:
  "(artist s \<noteq> [] \<longrightarrow> artist (read_tags a s) = artist s) \<and>
   (song s \<noteq> [] \<longrightarrow> song (read_tags a s) = song s)"
  by (auto simp: read_tags_def Let_def split: list.splits option.splits)

lemma extract_metadata_frame:
  "(artist s \<noteq> [] \<longrightarrow> artist (extract_metadata env s) = artist s) \<and>
   (song s \<noteq> [] \<longrightarrow> song (extract_metadata env s) = song s)"
  using read_tags_frame[of s] by (auto simp: extract_metadata_def Let_def split: mutagen.splits)

text \<open>
  C9. In a constructed object, an artist that the filename parser found non-empty is the
  parser's artist, and a song that the parser found non-empty is the parser's song,
  whatever \<open>mutagen\<close> answers for the file: a tag can only land in a field that the parser
  left empty.
\<close>

theorem enrichment_keeps_parser_result:
  assumes "MusicFile path (Some n) env = Some r"
    and "parsed = parse_filename (init_fields path n)"
  shows "(artist parsed \<noteq> [] \<longrightarrow> artist r = artist parsed) \<and>
         (song parsed \<noteq> [] \<longrightarrow> song r = song parsed)"
  using assms extract_metadata_frame[of parsed env] by (auto simp: MusicFile_def)

theorem enrichment_keeps_parser_result_witness:
  "MusicFile ''A - B.mp3'' (Some 0) tagged_audio =
     Some (extract_metadata tagged_audio (parse_filename (init_fields ''A - B.mp3'' 0))) \<and>
   artist (parse_filename (init_fields ''A - B.mp3'' 0)) \<noteq> [] \<and>
   song (parse_filename (init_fields ''A - B.mp3'' 0)) \<noteq> [] \<and>
   artist (extract_metadata tagged_audio (parse_filename (init_fields ''A - B.mp3'' 0))) =
     artist (parse_filename (init_fields ''A - B.mp3'' 0)) \<and>
   song (extract_metadata tagged_audio (parse_filename (init_fields ''A - B.mp3'' 0))) =
     song (parse_filename (init_fields ''A - B.mp3'' 0))"
proof -
  have m: "MusicFile ''A - B.mp3'' (Some 0) tagged_audio =
     Some (extract_metadata tagged_audio (parse_filename (init_fields ''A - B.mp3'' 0)))"
    by (simp add: MusicFile_def)
  have a: "artist (parse_filename (init_fields ''A - B.mp3'' 0)) \<noteq> []" by code_simp
  have s: "song (parse_filename (init_fields ''A - B.mp3'' 0)) \<noteq> []" by code_simp
  from enrichment_keeps_parser_result[OF m refl] m a s show ?thesis by blast
qed

text \<open>The tags do fill a field that the parser left empty.\<close>

lemma tag_fills_empty_artist:
  "map_option (\<lambda>r. (artist r, song r)) (MusicFile ''JustATitle.mp3'' (Some 0) tagged_audio)
     = Some (''X'', ''JustATitle'')"
  by code_simp

section \<open>The similarity score\<close>

lemma gate_rejects:
  "query_tokens q = {} \<or> (\<exists>tok \<in> query_tokens q. \<not> py_in tok (haystack r)) \<Longrightarrow>
   match_query R r q t = 0"
  by (auto simp: match_query_def query_tokens_def Let_def)

lemma gate_passes:
  "\<not> (query_tokens q = {} \<or> (\<exists>tok \<in> query_tokens q. \<not> py_in tok (haystack r))) \<Longrightarrow>
   t \<le> 1/2 \<Longrightarrow> match_query R r q t = 1"
  by (auto simp: match_query_def query_tokens_def Let_def)

text \<open>
  C5, as the claim states it, fails on an underscore. For the query \<open>a_b\<close> the token set of
  the claim (every character that is neither alphanumeric nor whitespace made whitespace)
  is \<open>{a, b}\<close>, and both tokens occur in the haystack of the file \<open>a b.mp3\<close>; the claim
  gives the score 1 at threshold 0.5. The source replaces what is outside \<open>\w\<close> and \<open>\s\<close>,
  and \<open>\w\<close> holds the underscore: its only token is \<open>a_b\<close>, which does not occur, and the
  score is 0.
\<close>

theorem underscore_token_counterexample:
  "spec_query_tokens ''a_b'' = {''a'', ''b''} \<and>
   py_in ''a'' (haystack (parse_filename (init_fields ''a b.mp3'' 0))) \<and>
   py_in ''b'' (haystack (parse_filename (init_fields ''a b.mp3'' 0))) \<and>
   match_query no_ratio (parse_filename (init_fields ''a b.mp3'' 0)) ''a_b'' (1/2) = 0"
proof -
  have t1: "spec_query_tokens ''a_b'' = {''a'', ''b''}" by code_simp
  have t2: "query_tokens ''a_b'' = {''a_b''}" by code_simp
  have t3: "py_in ''a'' (haystack (parse_filename (init_fields ''a b.mp3'' 0))) \<and>
     py_in ''b'' (haystack (parse_filename (init_fields ''a b.mp3'' 0)))" by code_simp
  have t4: "\<not> py_in ''a_b'' (haystack (parse_filename (init_fields ''a b.mp3'' 0)))"
    by code_simp
  have "match_query no_ratio (parse_filename (init_fields ''a b.mp3'' 0)) ''a_b'' (1/2) = 0"
    by (rule gate_rejects) (simp add: t2 t4)
  with t1 t3 show ?thesis by simp
qed

text \<open>
  C5, amended. The tokens of the query are taken after lower-casing and after every
  character that is neither a word character (alphanumeric or underscore) nor whitespace
  is made whitespace. For every query, record and threshold: if this token set is empty,
  or some token is not a substring of the lower-cased haystack string, the score is 0
  whatever the threshold; otherwise, if the threshold is at most 0.5, the score is 1.
\<close>

theorem match_query_gate_and_fast_path:
  "(query_tokens q = {} \<or> (\<exists>tok \<in> query_tokens q. \<not> py_in tok (haystack r))
      \<longrightarrow> match_query R r q t = 0) \<and>
   (\<not> (query_tokens q = {} \<or> (\<exists>tok \<in> query_tokens q. \<not> py_in tok (haystack r)))
      \<longrightarrow> t \<le> 1/2 \<longrightarrow> match_query R r q t = 1)"
  using gate_rejects[of q r R t] gate_passes[of q r t R] by blast

theorem match_query_gate_and_fast_path_witness:
  "(\<exists>tok \<in> query_tokens ''zzz''.
      \<not> py_in tok (haystack (parse_filename (init_fields ''a b.mp3'' 0)))) \<and>
   match_query no_ratio (parse_filename (init_fields ''a b.mp3'' 0)) ''zzz'' 1 = 0 \<and>
   \<not> (query_tokens ''B'' = {} \<or>
      (\<exists>tok \<in> query_tokens ''B''.
         \<not> py_in tok (haystack (parse_filename (init_fields ''a b.mp3'' 0))))) \<and>
   (1/2::real) \<le> 1/2 \<and>
   match_query no_ratio (parse_filename (init_fields ''a b.mp3'' 0)) ''B'' (1/2) = 1"
proof -
  have a: "\<exists>tok \<in> query_tokens ''zzz''.
      \<not> py_in tok (haystack (parse_filename (init_fields ''a b.mp3'' 0)))"
    by code_simp
  have b: "\<not> (query_tokens ''B'' = {} \<or>
      (\<exists>tok \<in> query_tokens ''B''.
         \<not> py_in tok (haystack (parse_filename (init_fields ''a b.mp3'' 0)))))"
    by code_simp
  from a b
    match_query_gate_and_fast_path[of "''zzz''" "parse_filename (init_fields ''a b.mp3'' 0)"
      no_ratio 1]
    match_query_gate_and_fast_path[of "''B''" "parse_filename (init_fields ''a b.mp3'' 0)"
      no_ratio "1/2"]
  show ?thesis by simp
qed

section \<open>Searching\<close>

lemma search_loop_eq:
  "search_loop R q t fs acc objs =
     (acc @ [(f, match_query R f q t). f \<leftarrow> fs, match_query R f q t \<ge> t], objs @ fs)"
  by (induction fs arbitrary: acc objs) (auto simp: Let_def match_query_call_def)

lemma entry_loop_eq:
  "entry_loop R q t fs acc objs =
     (acc @ [(f, match_query R f q t). f \<leftarrow> fs, match_query R f q t \<ge> t], objs @ fs)"
  by (induction fs arbitrary: acc objs) (auto simp: Let_def match_query_call_def)

lemma sorted_by_score_desc: "sorted_wrt (\<lambda>a b. snd b \<le> snd a) (sorted_by_score xs)"
proof -
  have "sorted (map (\<lambda>x. - snd x) (sort_key (\<lambda>x. - snd x) xs))"
    by (rule sorted_sort_key)
  then show ?thesis by (simp add: sorted_by_score_def sorted_wrt_map)
qed

lemma sorted_by_score_stable:
  "filter (\<lambda>p. snd p = k) (sorted_by_score xs) = filter (\<lambda>p. snd p = k) xs"
proof -
  have "filter (\<lambda>y. - snd y = - k) (sort_key (\<lambda>x. - snd x) xs) =
      filter (\<lambda>y. - snd y = - k) xs"
    by (rule sort_key_stable)
  then show ?thesis by (simp add: sorted_by_score_def)
qed

lemma mset_sorted_by_score: "mset (sorted_by_score xs) = mset xs"
  by (simp add: sorted_by_score_def)

lemma search_eq:
  "search R mdb q t =
     (if py_strip q = [] then ([], mdb)
      else (sorted_by_score
              [(f, match_query R f q t). f \<leftarrow> music_files mdb, match_query R f q t \<ge> t],
            mdb))"
  by (simp add: search_def search_loop_eq)

lemma playlist_loop_eq:
  "playlist_loop R t es acc mdb =
     (acc @ map (\<lambda>e. (e, sorted_by_score
        [(f, match_query R f e t). f \<leftarrow> music_files mdb, match_query R f e t \<ge> t])) es,
      mdb)"
  by (induction es arbitrary: acc) (auto simp: Let_def entry_loop_eq)

text \<open>
  C6. A query that is empty after trimming gives the empty list. Any other query gives
  exactly the records of the database whose score reaches the threshold, each paired with
  its score (as multisets); the list is in descending order of score; and for every score
  the records with that score come in the order in which the database holds them.
\<close>

theorem search_filters_and_sorts:
  "(py_strip q = [] \<longrightarrow> fst (search R mdb q t) = []) \<and>
   (py_strip q \<noteq> [] \<longrightarrow>
      mset (fst (search R mdb q t)) =
        mset [(f, match_query R f q t). f \<leftarrow> music_files mdb, match_query R f q t \<ge> t] \<and>
      sorted_wrt (\<lambda>a b. snd b \<le> snd a) (fst (search R mdb q t)) \<and>
      (\<forall>k. filter (\<lambda>p. snd p = k) (fst (search R mdb q t)) =
           filter (\<lambda>p. snd p = k)
             [(f, match_query R f q t). f \<leftarrow> music_files mdb, match_query R f q t \<ge> t]))"
  by (simp add: search_eq sorted_by_score_desc sorted_by_score_stable mset_sorted_by_score)

theorem search_filters_and_sorts_witness:
  "py_strip [CHR 0x20, CHR 0x09] = [] \<and>
   fst (search no_ratio example_database [CHR 0x20, CHR 0x09] (1/2)) = [] \<and>
   py_strip ''mp3'' \<noteq> [] \<and>
   mset (fst (search no_ratio example_database ''mp3'' (1/2))) =
     mset [(f, match_query no_ratio f ''mp3'' (1/2)). f \<leftarrow> music_files example_database,
            match_query no_ratio f ''mp3'' (1/2) \<ge> 1/2] \<and>
   sorted_wrt (\<lambda>a b. snd b \<le> snd a) (fst (search no_ratio example_database ''mp3'' (1/2))) \<and>
   (\<forall>k. filter (\<lambda>p. snd p = k) (fst (search no_ratio example_database ''mp3'' (1/2))) =
        filter (\<lambda>p. snd p = k)
          [(f, match_query no_ratio f ''mp3'' (1/2)). f \<leftarrow> music_files example_database,
            match_query no_ratio f ''mp3'' (1/2) \<ge> 1/2])"
proof -
  have a: "py_strip [CHR 0x20, CHR 0x09] = []" by code_simp
  have b: "py_strip ''mp3'' \<noteq> []" by code_simp
  from a b
    search_filters_and_sorts[of "[CHR 0x20, CHR 0x09]" no_ratio example_database "1/2"]
    search_filters_and_sorts[of "''mp3''" no_ratio example_database "1/2"]
  show ?thesis by blast
qed

text \<open>The scores of the two records of the example database.\<close>

lemma example_scores:
  "music_files example_database =
     [the (MusicFile ''music/a.mp3'' (Some 3) Not_Installed),
      the (MusicFile ''music/b.mp3'' (Some 2) Not_Installed)]"
  "filename (the (MusicFile ''music/a.mp3'' (Some 3) Not_Installed)) = ''a.mp3''"
  "filename (the (MusicFile ''music/b.mp3'' (Some 2) Not_Installed)) = ''b.mp3''"
  "match_query no_ratio (the (MusicFile ''music/a.mp3'' (Some 3) Not_Installed)) ''a'' (1/2) = 1"
  "match_query no_ratio (the (MusicFile ''music/b.mp3'' (Some 2) Not_Installed)) ''a'' (1/2) = 0"
  "match_query no_ratio (the (MusicFile ''music/a.mp3'' (Some 3) Not_Installed)) ''zzz'' (1/2) = 0"
  "match_query no_ratio (the (MusicFile ''music/b.mp3'' (Some 2) Not_Installed)) ''zzz'' (1/2) = 0"
  "match_query no_ratio (the (MusicFile ''music/a.mp3'' (Some 3) Not_Installed)) ''  '' 0 = 0"
  "match_query no_ratio (the (MusicFile ''music/b.mp3'' (Some 2) Not_Installed)) ''  '' 0 = 0"
proof -
  define A where "A = the (MusicFile ''music/a.mp3'' (Some 3) Not_Installed)"
  define B where "B = the (MusicFile ''music/b.mp3'' (Some 2) Not_Installed)"
  show "music_files example_database =
     [the (MusicFile ''music/a.mp3'' (Some 3) Not_Installed),
      the (MusicFile ''music/b.mp3'' (Some 2) Not_Installed)]" by code_simp
  show "filename (the (MusicFile ''music/a.mp3'' (Some 3) Not_Installed)) = ''a.mp3''"
    by code_simp
  show "filename (the (MusicFile ''music/b.mp3'' (Some 2) Not_Installed)) = ''b.mp3''"
    by code_simp
  have 1: "\<not> (query_tokens ''a'' = {} \<or>
      (\<exists>tok \<in> query_tokens ''a''. \<not> py_in tok (haystack A)))"
    unfolding A_def by code_simp
  have 2: "\<exists>tok \<in> query_tokens ''a''. \<not> py_in tok (haystack B)"
    unfolding B_def by code_simp
  have 3: "\<exists>tok \<in> query_tokens ''zzz''. \<not> py_in tok (haystack A)"
    unfolding A_def by code_simp
  have 4: "\<exists>tok \<in> query_tokens ''zzz''. \<not> py_in tok (haystack B)"
    unfolding B_def by code_simp
  have 5: "query_tokens ''  '' = {}" by code_simp
  have "match_query no_ratio A ''a'' (1/2) = 1" "match_query no_ratio B ''a'' (1/2) = 0"
    "match_query no_ratio A ''zzz'' (1/2) = 0" "match_query no_ratio B ''zzz'' (1/2) = 0"
    "match_query no_ratio A ''  '' 0 = 0" "match_query no_ratio B ''  '' 0 = 0"
    using 1 2 3 4 5 by (simp_all add: gate_rejects gate_passes)
  then show
    "match_query no_ratio (the (MusicFile ''music/a.mp3'' (Some 3) Not_Installed)) ''a'' (1/2) = 1"
    "match_query no_ratio (the (MusicFile ''music/b.mp3'' (Some 2) Not_Installed)) ''a'' (1/2) = 0"
    "match_query no_ratio (the (MusicFile ''music/a.mp3'' (Some 3) Not_Installed)) ''zzz'' (1/2) = 0"
    "match_query no_ratio (the (MusicFile ''music/b.mp3'' (Some 2) Not_Installed)) ''zzz'' (1/2) = 0"
    "match_query no_ratio (the (MusicFile ''music/a.mp3'' (Some 3) Not_Installed)) ''  '' 0 = 0"
    "match_query no_ratio (the (MusicFile ''music/b.mp3'' (Some 2) Not_Installed)) ''  '' 0 = 0"
    unfolding A_def B_def by simp_all
qed

text \<open>
  C7, as the claim states it, fails on a blank entry. \<open>search\<close> answers a blank query with
  the empty list before it filters; \<open>match_playlist\<close> has no such test. A blank entry has
  no token and scores 0 on every record, so at threshold 0 its inner list holds both
  records of the example database, and \<open>search\<close> on the same entry returns nothing.
\<close>

theorem blank_entry_counterexample:
  "map (\<lambda>(e, ms). (e, map (\<lambda>(f, score). (filename f, score)) ms))
     (fst (match_playlist no_ratio example_database [''  ''] 0)) =
     [(''  '', [(''a.mp3'', 0), (''b.mp3'', 0)])] \<and>
   fst (search no_ratio example_database ''  '' 0) = []"
proof -
  have "py_strip ''  '' = []" by code_simp
  then show ?thesis
    by (simp add: match_playlist_def playlist_loop_eq search_eq example_scores
        sorted_by_score_def)
qed

text \<open>
  C7, amended. The result of \<open>match_playlist\<close> has the length of the list of entries and
  names the entries in their order, one inner list per entry, which may be empty. The
  inner list of an entry is exactly the records whose score for the entry reaches the
  threshold, each paired with its score (as multisets), in descending order of score, and
  for every score in the order in which the database holds the records. It is the result
  of \<open>search\<close> on that entry whenever the entry is not blank; for a blank entry \<open>search\<close>
  returns the empty list, and the inner list is still the filtered and sorted one.
\<close>

theorem match_playlist_shape:
  "length (fst (match_playlist R mdb es t)) = length es \<and>
   map fst (fst (match_playlist R mdb es t)) = es \<and>
   (\<forall>i < length es.
      mset (snd (fst (match_playlist R mdb es t) ! i)) =
        mset [(f, match_query R f (es ! i) t). f \<leftarrow> music_files mdb,
               match_query R f (es ! i) t \<ge> t] \<and>
      sorted_wrt (\<lambda>a b. snd b \<le> snd a) (snd (fst (match_playlist R mdb es t) ! i)) \<and>
      (\<forall>k. filter (\<lambda>p. snd p = k) (snd (fst (match_playlist R mdb es t) ! i)) =
           filter (\<lambda>p. snd p = k)
             [(f, match_query R f (es ! i) t). f \<leftarrow> music_files mdb,
               match_query R f (es ! i) t \<ge> t]) \<and>
      (py_strip (es ! i) \<noteq> [] \<longrightarrow>
         snd (fst (match_playlist R mdb es t) ! i) = fst (search R mdb (es ! i) t)) \<and>
      (py_strip (es ! i) = [] \<longrightarrow> fst (search R mdb (es ! i) t) = []))"
  by (simp add: match_playlist_def playlist_loop_eq search_eq comp_def
      sorted_by_score_desc sorted_by_score_stable mset_sorted_by_score)

theorem match_playlist_shape_witness:
  "length (fst (match_playlist no_ratio example_database [''a'', ''  ''] 0)) =
     length [''a'', ''  ''] \<and>
   map fst (fst (match_playlist no_ratio example_database [''a'', ''  ''] 0)) =
     [''a'', ''  ''] \<and>
   (0::nat) < length [''a'', ''  ''] \<and> py_strip ([''a'', ''  ''] ! 0) \<noteq> [] \<and>
   snd (fst (match_playlist no_ratio example_database [''a'', ''  ''] 0) ! 0) =
     fst (search no_ratio example_database ([''a'', ''  ''] ! 0) 0) \<and>
   sorted_wrt (\<lambda>a b. snd b \<le> snd a)
     (snd (fst (match_playlist no_ratio example_database [''a'', ''  ''] 0) ! 0)) \<and>
   (1::nat) < length [''a'', ''  ''] \<and> py_strip ([''a'', ''  ''] ! 1) = [] \<and>
   fst (search no_ratio example_database ([''a'', ''  ''] ! 1) 0) = [] \<and>
   mset (snd (fst (match_playlist no_ratio example_database [''a'', ''  ''] 0) ! 1)) =
     mset [(f, match_query no_ratio f ([''a'', ''  ''] ! 1) 0).
            f \<leftarrow> music_files example_database,
            match_query no_ratio f ([''a'', ''  ''] ! 1) 0 \<ge> 0]"
proof -
  have a: "(0::nat) < length [''a'', ''  '']" "(1::nat) < length [''a'', ''  '']" by simp_all
  have b: "py_strip ([''a'', ''  ''] ! 0) \<noteq> []" by code_simp
  have c: "py_strip ([''a'', ''  ''] ! 1) = []" by code_simp
  from a b c match_playlist_shape[of no_ratio example_database "[''a'', ''  '']" 0]
  show ?thesis by blast
qed

text \<open>What the call returns on the example database: one match for \<open>a\<close>, none for \<open>zzz\<close>.\<close>

lemma match_playlist_example:
  "map (\<lambda>(e, ms). (e, map (\<lambda>(f, score). (filename f, score)) ms))
     (fst (match_playlist no_ratio example_database [''a'', ''zzz''] (1/2))) =
     [(''a'', [(''a.mp3'', 1)]), (''zzz'', [])]"
  by (simp add: match_playlist_def playlist_loop_eq example_scores sorted_by_score_def)

text \<open>
  C10. The call of \<open>match_query\<close> leaves its record as it is. \<open>search\<close> and
  \<open>match_playlist\<close> leave the database as it is: the record list, in which every record
  is as the calls of \<open>match_query\<close> on it have left it, the directory list, the extension
  filter and the scanning flag.
\<close>

theorem readers_leave_database_unchanged:
  "snd (match_query_call R r q t) = r \<and>
   snd (search R mdb q t) = mdb \<and>
   snd (match_playlist R mdb es t) = mdb"
  by (simp add: match_query_call_def search_eq match_playlist_def playlist_loop_eq)

section \<open>The extension filter\<close>

text \<open>
  C8, as the claim states it, fails: after \<open>set_extensions\<close> with the set \<open>{MP3}\<close> the file
  \<open>song.mp3\<close>, whose extension is in the set when case is ignored, does not qualify.
\<close>

theorem upper_case_extension_counterexample:
  "py_lower ''MP3'' = drop 1 (py_lower (snd (splitext ''song.mp3''))) \<and>
   \<not> qualifies (set_extensions {''MP3''} new_database) ''song.mp3''"
  by code_simp

text \<open>
  C8, amended. \<open>set_extensions\<close> replaces the active filter by the given set as it is,
  with no change of case and no dot removed. A file qualifies for scanning iff its
  extension, lower-cased and without the dot, is an element of that set as given.
\<close>

theorem set_extensions_stores_verbatim:
  "file_extensions (set_extensions S mdb) = S \<and>
   qualifies (set_extensions S mdb) f = (drop 1 (py_lower (snd (splitext f))) \<in> S)"
  by (simp add: set_extensions_def qualifies_def)

section \<open>Scanning\<close>

lemma qualifies_cong:
  "file_extensions a = file_extensions b \<Longrightarrow> qualifies a f = qualifies b f"
  by (simp add: qualifies_def)

lemma scan_result_cong:
  "file_extensions a = file_extensions b \<Longrightarrow> scan_result a es = scan_result b es"
  by (induction es) (auto simp: qualifies_cong[of a b] split: option.splits)

lemma turns_for_cong:
  "file_extensions a = file_extensions b \<Longrightarrow> turns_for a es = turns_for b es"
  by (induction es) (auto simp: qualifies_cong[of a b])

text \<open>What each action does to the record list that a reader sees.\<close>

lemma perform_visible:
  "music_files (db (perform a st)) =
     (case a of
        Start walk \<Rightarrow> if is_scanning (db st) then music_files (db st) else []
      | Turn i \<Rightarrow> music_files (db st) @ built_in_turn st i
      | Cancel \<Rightarrow> music_files (db st)
      | Set_Extensions S \<Rightarrow> music_files (db st))"
  by (cases a)
     (auto simp: perform_def scan_directories_def cancel_scan_def set_extensions_def
       worker_turn_def built_in_turn_def Let_def
       split: phase.splits option.splits list.splits prod.splits)

text \<open>
  A worker that runs alone with the flag set passes the files \<open>passed\<close> in
  \<open>turns_for\<close> turns and appends their records.
\<close>

lemma turns_pass:
  "workers st = [\<lparr>pending = passed @ rest, phase = Picking\<rparr>] \<Longrightarrow> is_scanning (db st) \<Longrightarrow>
   (perform (Turn 0) ^^ turns_for (db st) passed) st =
     \<lparr>db = (db st)\<lparr>music_files := music_files (db st) @ scan_result (db st) passed\<rparr>,
      workers = [\<lparr>pending = rest, phase = Picking\<rparr>]\<rparr>"
proof (induction passed arbitrary: st)
  case Nil
  then show ?case by (cases st) simp
next
  case (Cons e ps)
  show ?case
  proof (cases "qualifies (db st) (file_w e)")
    case False
    let ?st1 = "\<lparr>db = db st, workers = [\<lparr>pending = ps @ rest, phase = Picking\<rparr>]\<rparr>"
    from Cons.prems False have step: "perform (Turn 0) st = ?st1"
      by (simp add: perform_def worker_turn_def)
    from Cons.prems have "(perform (Turn 0) ^^ turns_for (db ?st1) ps) ?st1 =
       \<lparr>db = (db ?st1)\<lparr>music_files := music_files (db ?st1) @ scan_result (db ?st1) ps\<rparr>,
        workers = [\<lparr>pending = rest, phase = Picking\<rparr>]\<rparr>"
      by (intro Cons.IH) simp_all
    with False step show ?thesis by (simp add: funpow_swap1)
  next
    case True
    let ?built = "case MusicFile (path_join (root e) (file_w e)) (getsize e) (probe e) of
        Some music_file \<Rightarrow> [music_file] | None \<Rightarrow> []"
    let ?st1 = "\<lparr>db = db st, workers = [\<lparr>pending = ps @ rest, phase = Building e\<rparr>]\<rparr>"
    let ?d2 = "(db st)\<lparr>music_files := music_files (db st) @ ?built\<rparr>"
    let ?st2 = "\<lparr>db = ?d2, workers = [\<lparr>pending = ps @ rest, phase = Picking\<rparr>]\<rparr>"
    from Cons.prems True have step1: "perform (Turn 0) st = ?st1"
      by (simp add: perform_def worker_turn_def)
    have step2: "perform (Turn 0) ?st1 = ?st2"
      by (simp add: perform_def worker_turn_def split: option.splits)
    have ext: "file_extensions ?d2 = file_extensions (db st)" by simp
    from Cons.prems have "(perform (Turn 0) ^^ turns_for (db ?st2) ps) ?st2 =
       \<lparr>db = (db ?st2)\<lparr>music_files := music_files (db ?st2) @ scan_result (db ?st2) ps\<rparr>,
        workers = [\<lparr>pending = rest, phase = Picking\<rparr>]\<rparr>"
      by (intro Cons.IH) simp_all
    with True step1 step2 turns_for_cong[OF ext, of ps] scan_result_cong[OF ext, of ps]
    show ?thesis by (simp add: funpow_swap1 split: option.splits)
  qed
qed

text \<open>
  C4, as the claim states it, fails. A database holds the record of \<open>old.mp3\<close> and a scan
  over \<open>a.mp3\<close> and \<open>b.mp3\<close> is started. After two turns of the worker a reader sees the
  record of \<open>a.mp3\<close> alone: neither the previous set nor the finished new set.
\<close>

theorem scan_not_atomic_counterexample:
  "map filename (music_files old_database) = [''old.mp3''] \<and>
   map filename (music_files (db (perform (Turn 0) (perform (Turn 0)
     (perform (Start example_walk) \<lparr>db = old_database, workers = []\<rparr>))))) = [''a.mp3''] \<and>
   map filename (scan_result old_database example_walk) = [''a.mp3'', ''b.mp3'']"
  by code_simp

text \<open>
  A second start after \<open>cancel_scan\<close>, while the first worker still runs: the first worker
  finds the flag set again and appends the record of its next file to the new list, which
  then holds \<open>b.mp3\<close> alone.
\<close>

lemma restart_example:
  "map filename (music_files (db (fold perform
     [Start example_walk, Turn 0, Turn 0, Cancel, Start example_walk, Turn 0, Turn 0]
     \<lparr>db = old_database, workers = []\<rparr>))) = [''b.mp3'']"
  by code_simp

text \<open>
  C4, amended. Starting a scan does not replace the record set atomically. Of the steps of
  a scan, a start that is accepted empties the record list that readers see at once (a
  start while the flag is set changes nothing); a turn of a worker that builds a record
  appends it to that list at once; every other turn, \<open>cancel_scan\<close> and \<open>set_extensions\<close>
  leave the list as it is. So in a scan that is started on an idle database and whose
  worker runs alone, without cancel, a second start or a change of the filter, a reader
  sees, when the worker has passed the files \<open>passed\<close> of its walk and the files \<open>rest\<close>
  are still to come, exactly the records of \<open>passed\<close>, a partially built set, with the flag
  set; one turn after the last file it sees the finished set with the flag clear.
\<close>

theorem scan_is_incremental:
  "music_files (db (perform a st)) =
     (case a of
        Start walk \<Rightarrow> if is_scanning (db st) then music_files (db st) else []
      | Turn i \<Rightarrow> music_files (db st) @ built_in_turn st i
      | Cancel \<Rightarrow> music_files (db st)
      | Set_Extensions S \<Rightarrow> music_files (db st)) \<and>
   (\<not> is_scanning d \<longrightarrow>
      (let st1 = (perform (Turn 0) ^^ turns_for d passed)
                   (perform (Start (passed @ rest)) \<lparr>db = d, workers = []\<rparr>)
       in music_files (db st1) = scan_result d passed \<and> is_scanning (db st1) \<and>
          workers st1 = [\<lparr>pending = rest, phase = Picking\<rparr>]) \<and>
      (let st2 = (perform (Turn 0) ^^ Suc (turns_for d (passed @ rest)))
                   (perform (Start (passed @ rest)) \<lparr>db = d, workers = []\<rparr>)
       in music_files (db st2) = scan_result d (passed @ rest) \<and> \<not> is_scanning (db st2)))"
proof -
  have run: "(perform (Turn 0) ^^ turns_for d ps) (perform (Start (ps @ rs)) \<lparr>db = d, workers = []\<rparr>)
      = \<lparr>db = d\<lparr>is_scanning := True, music_files := scan_result d ps\<rparr>,
         workers = [\<lparr>pending = rs, phase = Picking\<rparr>]\<rparr>"
    if idle: "\<not> is_scanning d" for ps rs
  proof -
    let ?d0 = "d\<lparr>is_scanning := True, music_files := []\<rparr>"
    let ?st0 = "\<lparr>db = ?d0, workers = [\<lparr>pending = ps @ rs, phase = Picking\<rparr>]\<rparr>"
    from idle have start: "perform (Start (ps @ rs)) \<lparr>db = d, workers = []\<rparr> = ?st0"
      by (simp add: perform_def scan_directories_def)
    have ext: "file_extensions ?d0 = file_extensions d" by simp
    have "(perform (Turn 0) ^^ turns_for (db ?st0) ps) ?st0 =
        \<lparr>db = (db ?st0)\<lparr>music_files := music_files (db ?st0) @ scan_result (db ?st0) ps\<rparr>,
         workers = [\<lparr>pending = rs, phase = Picking\<rparr>]\<rparr>"
      by (rule turns_pass) simp_all
    with start turns_for_cong[OF ext, of ps] scan_result_cong[OF ext, of ps]
    show ?thesis by simp
  qed
  have last_turn: "perform (Turn 0) \<lparr>db = d', workers = [\<lparr>pending = [], phase = Picking\<rparr>]\<rparr> =
      \<lparr>db = d'\<lparr>is_scanning := False\<rparr>, workers = [\<lparr>pending = [], phase = Exited\<rparr>]\<rparr>" for d'
    by (simp add: perform_def worker_turn_def)
  have whole: "(perform (Turn 0) ^^ Suc (turns_for d (passed @ rest)))
        (perform (Start (passed @ rest)) \<lparr>db = d, workers = []\<rparr>) =
      \<lparr>db = d\<lparr>is_scanning := False, music_files := scan_result d (passed @ rest)\<rparr>,
       workers = [\<lparr>pending = [], phase = Exited\<rparr>]\<rparr>"
    if idle: "\<not> is_scanning d"
  proof -
    have "(perform (Turn 0) ^^ Suc (turns_for d (passed @ rest)))
        (perform (Start (passed @ rest)) \<lparr>db = d, workers = []\<rparr>) =
      perform (Turn 0) ((perform (Turn 0) ^^ turns_for d (passed @ rest))
        (perform (Start ((passed @ rest) @ [])) \<lparr>db = d, workers = []\<rparr>))"
      by simp
    also have "\<dots> = perform (Turn 0)
        \<lparr>db = d\<lparr>is_scanning := True, music_files := scan_result d (passed @ rest)\<rparr>,
         workers = [\<lparr>pending = [], phase = Picking\<rparr>]\<rparr>"
      by (simp only: run[OF idle])
    also have "\<dots> = \<lparr>db = d\<lparr>is_scanning := False, music_files := scan_result d (passed @ rest)\<rparr>,
         workers = [\<lparr>pending = [], phase = Exited\<rparr>]\<rparr>"
      by (simp add: last_turn)
    finally show ?thesis .
  qed
  show ?thesis
  proof (intro conjI impI)
    show "music_files (db (perform a st)) =
     (case a of
        Start walk \<Rightarrow> if is_scanning (db st) then music_files (db st) else []
      | Turn i \<Rightarrow> music_files (db st) @ built_in_turn st i
      | Cancel \<Rightarrow> music_files (db st)
      | Set_Extensions S \<Rightarrow> music_files (db st))"
      by (rule perform_visible)
  next
    assume idle: "\<not> is_scanning d"
    show "let st1 = (perform (Turn 0) ^^ turns_for d passed)
                   (perform (Start (passed @ rest)) \<lparr>db = d, workers = []\<rparr>)
       in music_files (db st1) = scan_result d passed \<and> is_scanning (db st1) \<and>
          workers st1 = [\<lparr>pending = rest, phase = Picking\<rparr>]"
      unfolding Let_def run[OF idle] by simp
  next
    assume idle: "\<not> is_scanning d"
    show "let st2 = (perform (Turn 0) ^^ Suc (turns_for d (passed @ rest)))
                   (perform (Start (passed @ rest)) \<lparr>db = d, workers = []\<rparr>)
       in music_files (db st2) = scan_result d (passed @ rest) \<and> \<not> is_scanning (db st2)"
      unfolding Let_def whole[OF idle] by simp
  qed
qed

theorem scan_is_incremental_witness:
  "\<not> is_scanning old_database \<and>
   music_files (db (perform (Start example_walk) \<lparr>db = old_database, workers = []\<rparr>)) = [] \<and>
   music_files (db ((perform (Turn 0) ^^ turns_for old_database (take 1 example_walk))
      (perform (Start (take 1 example_walk @ drop 1 example_walk))
         \<lparr>db = old_database, workers = []\<rparr>))) =
     scan_result old_database (take 1 example_walk) \<and>
   map filename (scan_result old_database (take 1 example_walk)) = [''a.mp3'']"
proof -
  have idle: "\<not> is_scanning old_database" by (simp add: old_database_def new_database_def)
  have names: "map filename (scan_result old_database (take 1 example_walk)) = [''a.mp3'']"
    by code_simp
  note inst = scan_is_incremental[of "Start example_walk"
      "\<lparr>db = old_database, workers = []\<rparr>" old_database "take 1 example_walk"
      "drop 1 example_walk"]
  from inst idle
  have emptied: "music_files (db (perform (Start example_walk)
      \<lparr>db = old_database, workers = []\<rparr>)) = []"
    by simp
  from inst idle
  have partial: "music_files (db ((perform (Turn 0) ^^ turns_for old_database (take 1 example_walk))
      (perform (Start (take 1 example_walk @ drop 1 example_walk))
         \<lparr>db = old_database, workers = []\<rparr>))) =
     scan_result old_database (take 1 example_walk)"
    unfolding Let_def by blast
  from idle emptied partial names show ?thesis by blast
qed
end
